theory Spec2Isabelle
  imports Complex_Main
begin

section \<open>Data model of the voice-booking hook\<close>

text \<open>
  The enum \<open>BookingStep\<close> of the type declarations, in the order of its declaration.
\<close>

datatype BookingStep =
    IDLE
  | CONNECTING
  | LISTENING_DPW
  | CONFIRMING_DPW
  | LISTENING_TOKEN
  | CONFIRMING_TOKEN
  | CONFIRMING_BOOKING
  | PROCESSING
  | SUCCESS
  | ERROR

text \<open>
  An audio source node that \<open>playAudio\<close> has created: the time handed to \<open>source.start\<close>
  and the duration of its buffer. Times are JavaScript numbers, that is, doubles; the
  finite ones are rationals. Comparing them and taking their maximum is exact. Their sum
  is rounded, so the addition of JavaScript numbers is a parameter \<open>jsAdd\<close> of the
  operations that add.
\<close>

record AudioBufferSourceNode =
  startedAt :: rat
  bufferDuration :: rat

text \<open>
  The state of \<open>useVoiceBooking\<close>: the \<open>useState\<close> cells first, then the \<open>useRef\<close>
  cells. A reference that holds an object or \<open>null\<close> is a flag (the object is there);
  \<open>nextStartTimeRef\<close> and \<open>audioSourcesRef\<close> keep their contents (a JavaScript \<open>Set\<close>
  keeps insertion order, so the sources are a list). \<open>randomCalls\<close> counts the calls of
  \<open>Math.random\<close> made so far: the k-th call returns \<open>rnd k\<close> for a function \<open>rnd\<close> that
  the operations take as a parameter.
\<close>

record hook =
  bookingStep :: BookingStep
  dpwRef :: string
  token :: string
  containerNumber :: string
  containerLocation :: string
  gateInTime :: string
  error :: "string option"
  volume :: rat
  sessionPromiseRef :: bool
  audioContextRef :: bool
  outputAudioContextRef :: bool
  mediaStreamRef :: bool
  scriptProcessorRef :: bool
  analyserNodeRef :: bool
  animationFrameRef :: bool
  nextStartTimeRef :: rat
  audioSourcesRef :: "AudioBufferSourceNode list"
  randomCalls :: nat

text \<open>
  A function call of the live session, with the arguments that the five function
  declarations give it: \<open>number\<close> is a string, \<open>isCorrect\<close> and \<open>proceed\<close> are booleans,
  and an argument that the call does not carry is \<open>None\<close> (\<open>undefined\<close> in the source).
\<close>

record FunctionCallArgs =
  number :: "string option"
  isCorrect :: "bool option"
  proceed :: "bool option"

record FunctionCall =
  name :: string
  args :: FunctionCallArgs

text \<open>
  A message of the live session, as far as \<open>onmessage\<close> reads it: the base64 audio of the
  model turn's first part, the function calls of the tool call, and the interruption flag.
\<close>

record LiveServerMessage =
  inlineData :: "string option"
  functionCalls :: "FunctionCall list option"
  interrupted :: bool

section \<open>Strings\<close>

text \<open>
  Characters are code units below 256. Of these the class \<open>\s\<close> of a JavaScript regular
  expression holds tab, line feed, vertical tab, form feed, carriage return, space and
  the no-break space; \<open>\d\<close> holds the ten ASCII digits.
\<close>

definition isWhitespace :: "char \<Rightarrow> bool" where
  "isWhitespace c \<longleftrightarrow>
     c \<in> {CHR 0x09, CHR 0x0A, CHR 0x0B, CHR 0x0C, CHR 0x0D, CHR 0x20, CHR 0xA0}"

definition isDigit :: "char \<Rightarrow> bool" where
  "isDigit c \<longleftrightarrow> c \<in> set ''0123456789''"

text \<open>\<open>x || ''\<close> for an optional string.\<close>

definition orEmpty :: "string option \<Rightarrow> string" where
  "orEmpty x = (case x of None \<Rightarrow> [] | Some v \<Rightarrow> v)"

text \<open>\<open>.replace(/\s/g, '')\<close>\<close>

definition replaceWhitespace :: "string \<Rightarrow> string" where
  "replaceWhitespace v = filter (\<lambda>c. \<not> isWhitespace c) v"

text \<open>\<open>/^\d{k}$/.test(v)\<close>\<close>

definition testDigits :: "nat \<Rightarrow> string \<Rightarrow> bool" where
  "testDigits k v \<longleftrightarrow> length v = k \<and> list_all isDigit v"

text \<open>The truth value of an optional boolean argument: \<open>undefined\<close> is falsy.\<close>

definition truthy :: "bool option \<Rightarrow> bool" where
  "truthy b = (case b of None \<Rightarrow> False | Some v \<Rightarrow> v)"

text \<open>\<open>String(n)\<close> for an integer \<open>n\<close>, in decimal.\<close>

definition digitChars :: string where
  "digitChars = ''0123456789''"

fun stringOfNat :: "nat \<Rightarrow> string" where
  "stringOfNat n =
     (if n < 10 then [digitChars ! n]
      else stringOfNat (n div 10) @ [digitChars ! (n mod 10)])"

declare stringOfNat.simps [simp del]

definition stringOfInt :: "int \<Rightarrow> string" where
  "stringOfInt i = (if i < 0 then CHR ''-'' # stringOfNat (nat (- i)) else stringOfNat (nat i))"

text \<open>\<open>v.padStart(k, c)\<close> with a one-character filler.\<close>

definition padStart :: "nat \<Rightarrow> char \<Rightarrow> string \<Rightarrow> string" where
  "padStart k c v = replicate (k - length v) c @ v"

text \<open>\<open>v.charAt(i)\<close>: the empty string out of range.\<close>

definition charAt :: "string \<Rightarrow> int \<Rightarrow> string" where
  "charAt v i = (if 0 \<le> i \<and> i < int (length v) then [v ! nat i] else [])"

section \<open>The state setters\<close>

definition setBookingStep :: "BookingStep \<Rightarrow> hook \<Rightarrow> hook" where
  "setBookingStep v s = s\<lparr>bookingStep := v\<rparr>"

definition setDpwRef :: "string \<Rightarrow> hook \<Rightarrow> hook" where
  "setDpwRef v s = s\<lparr>dpwRef := v\<rparr>"

definition setToken :: "string \<Rightarrow> hook \<Rightarrow> hook" where
  "setToken v s = s\<lparr>token := v\<rparr>"

definition setContainerNumber :: "string \<Rightarrow> hook \<Rightarrow> hook" where
  "setContainerNumber v s = s\<lparr>containerNumber := v\<rparr>"

definition setContainerLocation :: "string \<Rightarrow> hook \<Rightarrow> hook" where
  "setContainerLocation v s = s\<lparr>containerLocation := v\<rparr>"

definition setGateInTime :: "string \<Rightarrow> hook \<Rightarrow> hook" where
  "setGateInTime v s = s\<lparr>gateInTime := v\<rparr>"

definition setError :: "string option \<Rightarrow> hook \<Rightarrow> hook" where
  "setError v s = s\<lparr>error := v\<rparr>"

definition setVolume :: "rat \<Rightarrow> hook \<Rightarrow> hook" where
  "setVolume v s = s\<lparr>volume := v\<rparr>"

section \<open>Audio playback\<close>

text \<open>
  \<open>audioContext.currentTime\<close> as \<open>playAudio\<close> reads it: \<open>now\<close> is the clock of the output
  context when there is one; a context that \<open>playAudio\<close> has to create starts at zero.
\<close>

definition contextTime :: "rat \<Rightarrow> hook \<Rightarrow> rat" where
  "contextTime now s = (if outputAudioContextRef s then now else 0)"

text \<open>
  \<open>playAudio\<close> awaits \<open>decodeAudioData\<close> in its middle, and whatever callback is due runs
  during that \<open>await\<close>. So the function is modelled as its two halves, each of which runs
  without interruption.

  The first half, up to the \<open>await\<close>: the output context is created when missing and the
  cursor is raised to the context's clock.
\<close>

definition playAudio_schedule :: "rat \<Rightarrow> hook \<Rightarrow> hook" where
  "playAudio_schedule now s =
     s\<lparr>outputAudioContextRef := True,
       nextStartTimeRef := max (nextStartTimeRef s) (contextTime now s)\<rparr>"

text \<open>
  The second half, after the \<open>await\<close>: \<open>duration\<close> is the duration of the buffer that
  \<open>decodeAudioData\<close> (not part of the sources at hand) has returned. The new source joins
  the set and is started at the cursor as it stands by now, and \<open>+=\<close> adds the duration to
  the cursor. The clock of the context is not read again.
\<close>

definition playAudio_start :: "(rat \<Rightarrow> rat \<Rightarrow> rat) \<Rightarrow> rat \<Rightarrow> hook \<Rightarrow> hook" where
  "playAudio_start jsAdd duration s =
     s\<lparr>audioSourcesRef :=
         audioSourcesRef s @ [\<lparr>startedAt = nextStartTimeRef s, bufferDuration = duration\<rparr>],
       nextStartTimeRef := jsAdd (nextStartTimeRef s) duration\<rparr>"

text \<open>The listener for \<open>ended\<close> that \<open>playAudio\<close> installs on each source.\<close>

definition onended :: "AudioBufferSourceNode \<Rightarrow> hook \<Rightarrow> hook" where
  "onended source s = s\<lparr>audioSourcesRef := remove1 source (audioSourcesRef s)\<rparr>"

definition stopPlayback :: "hook \<Rightarrow> hook" where
  "stopPlayback s = s\<lparr>audioSourcesRef := [], nextStartTimeRef := 0\<rparr>"

text \<open>
  \<open>speakText\<close> once the speech request has settled: \<open>response\<close> is the base64 audio of the
  answer (\<open>None\<close> when the request failed or carried no audio). The callers of \<open>speakText\<close>
  have returned to the event loop by then, so this is an event of its own. It runs up to
  the \<open>await\<close> inside \<open>playAudio\<close>; nothing but the second half of \<open>playAudio\<close> follows.
\<close>

definition speakText :: "rat \<Rightarrow> string option \<Rightarrow> hook \<Rightarrow> hook" where
  "speakText now response s =
     (case response of
        None \<Rightarrow> s
      | Some base64Audio \<Rightarrow>
          if base64Audio \<noteq> [] then playAudio_schedule now s else s)"

section \<open>The mocked booking\<close>

definition letters :: string where
  "letters = ''ABCDEFGHIJKLMNOPQRSTUVWXYZ''"

text \<open>\<open>generateMockLocation\<close>, with its five draws starting at the k-th.\<close>

definition generateMockLocation :: "(nat \<Rightarrow> rat) \<Rightarrow> nat \<Rightarrow> string" where
  "generateMockLocation rnd k =
     (let part1 = padStart 2 CHR ''0'' (stringOfInt \<lfloor>rnd k * 100\<rfloor>);
          part2 = charAt letters \<lfloor>rnd (k + 1) * of_nat (length letters)\<rfloor>;
          part3 = padStart 2 CHR ''0'' (stringOfInt \<lfloor>rnd (k + 2) * 100\<rfloor>);
          part4 = charAt letters \<lfloor>rnd (k + 3) * of_nat (length letters)\<rfloor>;
          part5 = stringOfInt \<lfloor>rnd (k + 4) * 10\<rfloor>
      in part1 @ part2 @ part3 @ part4 @ part5)"

definition mockContainerNumber :: "(nat \<Rightarrow> rat) \<Rightarrow> nat \<Rightarrow> string" where
  "mockContainerNumber rnd k = ''DPWU'' @ stringOfInt \<lfloor>1000000 + rnd k * 9000000\<rfloor>"

definition mockGateInTime :: "(nat \<Rightarrow> rat) \<Rightarrow> nat \<Rightarrow> string" where
  "mockGateInTime rnd k =
     stringOfInt \<lfloor>1 + rnd k * 12\<rfloor> @ '':''
       @ padStart 2 CHR ''0'' (stringOfInt \<lfloor>rnd (k + 1) * 60\<rfloor>) @ '' PM''"

text \<open>
  The setter calls of \<open>processBooking\<close>, in the order in which it makes them. The function
  is asynchronous, but its first \<open>await\<close> (of \<open>speakText\<close>) comes after the last setter, so
  all of them run within the call.
\<close>

definition processBooking_updates :: "(nat \<Rightarrow> rat) \<Rightarrow> nat \<Rightarrow> (hook \<Rightarrow> hook) list" where
  "processBooking_updates rnd k =
     [setContainerNumber (mockContainerNumber rnd k),
      setContainerLocation (generateMockLocation rnd (k + 1)),
      setGateInTime (mockGateInTime rnd (k + 6)),
      setBookingStep SUCCESS]"

definition processBooking :: "(nat \<Rightarrow> rat) \<Rightarrow> hook \<Rightarrow> hook" where
  "processBooking rnd s =
     fold (\<lambda>update. update) (processBooking_updates rnd (randomCalls s))
       (s\<lparr>randomCalls := randomCalls s + 8\<rparr>)"

text \<open>
  The states that the hook goes through while the updates are applied one after the
  other, the first being the state before any of them.
\<close>

fun statesAfter :: "(hook \<Rightarrow> hook) list \<Rightarrow> hook \<Rightarrow> hook list" where
  "statesAfter [] s = [s]"
| "statesAfter (update # updates) s = s # statesAfter updates (update s)"

definition processBooking_states :: "(nat \<Rightarrow> rat) \<Rightarrow> hook \<Rightarrow> hook list" where
  "processBooking_states rnd s =
     statesAfter (processBooking_updates rnd (randomCalls s))
       (s\<lparr>randomCalls := randomCalls s + 8\<rparr>)"

section \<open>Function calls\<close>

text \<open>
  The body of the loop over \<open>message.toolCall.functionCalls\<close> in \<open>onmessage\<close>. Every call
  is also answered with the tool response \<open>OK\<close>, which goes to the session and leaves the
  hook as it is.
\<close>

definition handleFunctionCall :: "(nat \<Rightarrow> rat) \<Rightarrow> FunctionCall \<Rightarrow> hook \<Rightarrow> hook" where
  "handleFunctionCall rnd fc s =
     (if name fc = ''submitDpwReferenceNumber'' then
        (let num = replaceWhitespace (orEmpty (number (args fc)))
         in if num \<noteq> [] \<and> testDigits 7 num
            then setBookingStep CONFIRMING_DPW (setDpwRef num s)
            else s)
      else if name fc = ''confirmDpwReference'' then
        (if truthy (isCorrect (args fc))
         then setBookingStep LISTENING_TOKEN s
         else setBookingStep LISTENING_DPW (setDpwRef [] s))
      else if name fc = ''submitTokenNumber'' then
        (let num = replaceWhitespace (orEmpty (number (args fc)))
         in if num \<noteq> [] \<and> testDigits 6 num
            then setBookingStep CONFIRMING_TOKEN (setToken num s)
            else s)
      else if name fc = ''confirmToken'' then
        (if truthy (isCorrect (args fc))
         then setBookingStep CONFIRMING_BOOKING s
         else setBookingStep LISTENING_TOKEN (setToken [] s))
      else if name fc = ''confirmBooking'' then
        (if truthy (proceed (args fc))
         then processBooking rnd (setBookingStep PROCESSING s)
         else setBookingStep LISTENING_DPW (setToken [] (setDpwRef [] s)))
      else s)"

text \<open>
  \<open>onmessage\<close> behind its audio: the function calls are handled in their order, and an
  interruption stops the playback.
\<close>

definition onmessage_resume :: "(nat \<Rightarrow> rat) \<Rightarrow> LiveServerMessage \<Rightarrow> hook \<Rightarrow> hook" where
  "onmessage_resume rnd message s =
     (let s2 = (case functionCalls message of
                  None \<Rightarrow> s
                | Some fcs \<Rightarrow> fold (handleFunctionCall rnd) fcs s)
      in if interrupted message then stopPlayback s2 else s2)"

text \<open>
  \<open>onmessage\<close> as far as it runs when the message arrives. A message without audio is
  handled to the end. For a message with audio the handler calls \<open>playAudio\<close> and is
  suspended with it at the \<open>await\<close> of the decoding; the second half of \<open>playAudio\<close> and then
  \<open>onmessage_resume\<close> follow as events of their own.
\<close>

definition onmessage :: "(nat \<Rightarrow> rat) \<Rightarrow> rat \<Rightarrow> LiveServerMessage \<Rightarrow> hook \<Rightarrow> hook" where
  "onmessage rnd now message s =
     (case inlineData message of
        None \<Rightarrow> onmessage_resume rnd message s
      | Some base64Audio \<Rightarrow>
          if base64Audio \<noteq> [] then playAudio_schedule now s
          else onmessage_resume rnd message s)"

section \<open>Session life cycle\<close>

definition cleanup :: "hook \<Rightarrow> hook" where
  "cleanup s =
     (stopPlayback s)\<lparr>animationFrameRef := False,
       analyserNodeRef := False,
       scriptProcessorRef := False,
       audioContextRef := False,
       outputAudioContextRef := False,
       mediaStreamRef := False,
       sessionPromiseRef := False\<rparr>"

text \<open>
  What the \<open>try\<close> block of \<open>startBooking\<close> comes to: the microphone is granted and the
  session is requested, or \<open>getUserMedia\<close> rejects and the \<open>catch\<close> block runs.
\<close>

datatype tryOutcome = Resolved | Rejected

text \<open>\<open>startBooking\<close> up to its \<open>await\<close>; the caller has checked \<open>sessionPromiseRef\<close>.\<close>

definition startBooking_enter :: "hook \<Rightarrow> hook" where
  "startBooking_enter s =
     setVolume 0 (setGateInTime [] (setContainerLocation [] (setContainerNumber []
       (setToken [] (setDpwRef [] (setError None (setBookingStep CONNECTING s)))))))"

definition startBooking_catch :: "hook \<Rightarrow> hook" where
  "startBooking_catch s =
     cleanup (setBookingStep ERROR
       (setError (Some ''Could not access the microphone. Please grant permission and try again.'') s))"

definition startBooking :: "tryOutcome \<Rightarrow> hook \<Rightarrow> hook" where
  "startBooking outcome s =
     (if sessionPromiseRef s then s
      else (case outcome of
              Resolved \<Rightarrow>
                (startBooking_enter s)\<lparr>mediaStreamRef := True,
                  audioContextRef := True,
                  sessionPromiseRef := True\<rparr>
            | Rejected \<Rightarrow> startBooking_catch (startBooking_enter s)))"

text \<open>
  \<open>onopen\<close>: the step is set first; the audio graph is built on the input context, which
  the callback takes to be there.
\<close>

definition onopen :: "hook \<Rightarrow> hook" where
  "onopen s =
     (let s1 = setBookingStep LISTENING_DPW s
      in if audioContextRef s1
         then s1\<lparr>scriptProcessorRef := True, analyserNodeRef := True, animationFrameRef := True\<rparr>
         else s1)"

text \<open>
  \<open>updateVolume\<close>, the animation-frame callback: \<open>dataArray\<close> is what the analyser
  writes, one byte for each of its \<open>bufferLength\<close> frequency bins (half of the FFT size
  512).
\<close>

definition bufferLength :: nat where
  "bufferLength = 512 div 2"

definition updateVolume :: "nat list \<Rightarrow> hook \<Rightarrow> hook" where
  "updateVolume dataArray s =
     (if \<not> analyserNodeRef s then s
      else (let average = of_nat (sum_list dataArray) / of_nat bufferLength
            in (setVolume (average / 128) s)\<lparr>animationFrameRef := True\<rparr>))"

definition onerror :: "hook \<Rightarrow> hook" where
  "onerror s =
     cleanup (setBookingStep ERROR
       (setError (Some ''A connection error occurred. Please try again.'') s))"

definition onclose :: "hook \<Rightarrow> hook" where
  "onclose s = cleanup s"

text \<open>
  \<open>submitManualInput\<close> up to its \<open>await\<close> of \<open>speakText\<close>.
\<close>

definition submitManualInput :: "string \<Rightarrow> hook \<Rightarrow> hook" where
  "submitManualInput num s =
     (let s1 = stopPlayback s
      in if bookingStep s = LISTENING_DPW
         then setBookingStep CONFIRMING_DPW (setDpwRef num s1)
         else if bookingStep s = LISTENING_TOKEN
         then setBookingStep CONFIRMING_TOKEN (setToken num s1)
         else s1)"

definition reset :: "hook \<Rightarrow> hook" where
  "reset s =
     setVolume 0 (setError None (setGateInTime [] (setContainerLocation []
       (setContainerNumber [] (setToken [] (setDpwRef [] (setBookingStep IDLE (cleanup s))))))))"

text \<open>The hook as \<open>useVoiceBooking\<close> creates it.\<close>

definition initialHook :: hook where
  "initialHook =
     \<lparr>bookingStep = IDLE, dpwRef = [], token = [], containerNumber = [],
      containerLocation = [], gateInTime = [], error = None, volume = 0,
      sessionPromiseRef = False, audioContextRef = False, outputAudioContextRef = False,
      mediaStreamRef = False, scriptProcessorRef = False, analyserNodeRef = False,
      animationFrameRef = False, nextStartTimeRef = 0, audioSourcesRef = [],
      randomCalls = 0\<rparr>"

section \<open>The form of the application\<close>

text \<open>
  \<open>isInputValid\<close> and \<open>handleManualSubmit\<close> of \<open>App\<close>: the form hands its input to the hook
  only when it is a string of digits of the length that the current step asks for.
\<close>

definition requiredLength :: "hook \<Rightarrow> nat" where
  "requiredLength s = (if bookingStep s = LISTENING_DPW then 7 else 6)"

definition isInputValid :: "string \<Rightarrow> hook \<Rightarrow> bool" where
  "isInputValid manualInput s \<longleftrightarrow>
     length manualInput = requiredLength s \<and> manualInput \<noteq> [] \<and> list_all isDigit manualInput"

definition handleManualSubmit :: "string \<Rightarrow> hook \<Rightarrow> hook" where
  "handleManualSubmit manualInput s =
     (if isInputValid manualInput s then submitManualInput manualInput s else s)"

section \<open>Events\<close>

text \<open>
  Everything that can happen to the hook: the calls of its interface, the callbacks of
  the session, the callbacks of the audio machinery, and the continuations of the
  suspended handlers. Events that read the clock of the output context carry it.
  \<open>AudioDecoded\<close> is the second half of a \<open>playAudio\<close> call, for the audio that it was
  called with; \<open>OnMessageResumed\<close> is the rest of the handler of a message with audio.
\<close>

datatype event =
    StartBooking tryOutcome
  | OnOpen
  | OnMessage rat LiveServerMessage
  | AudioDecoded string
  | OnMessageResumed LiveServerMessage
  | OnError
  | OnClose
  | SubmitManualInput string
  | Reset
  | SpeakTextSettled rat "string option"
  | OnEnded AudioBufferSourceNode
  | UpdateVolume "nat list"

fun step ::
  "(rat \<Rightarrow> rat \<Rightarrow> rat) \<Rightarrow> (nat \<Rightarrow> rat) \<Rightarrow> (string \<Rightarrow> rat) \<Rightarrow> event \<Rightarrow> hook \<Rightarrow> hook" where
  "step jsAdd rnd dur (StartBooking outcome) s = startBooking outcome s"
| "step jsAdd rnd dur OnOpen s = onopen s"
| "step jsAdd rnd dur (OnMessage now message) s = onmessage rnd now message s"
| "step jsAdd rnd dur (AudioDecoded base64Audio) s = playAudio_start jsAdd (dur base64Audio) s"
| "step jsAdd rnd dur (OnMessageResumed message) s = onmessage_resume rnd message s"
| "step jsAdd rnd dur OnError s = onerror s"
| "step jsAdd rnd dur OnClose s = onclose s"
| "step jsAdd rnd dur (SubmitManualInput num) s = submitManualInput num s"
| "step jsAdd rnd dur Reset s = reset s"
| "step jsAdd rnd dur (SpeakTextSettled now response) s = speakText now response s"
| "step jsAdd rnd dur (OnEnded source) s = onended source s"
| "step jsAdd rnd dur (UpdateVolume dataArray) s = updateVolume dataArray s"

definition run ::
  "(rat \<Rightarrow> rat \<Rightarrow> rat) \<Rightarrow> (nat \<Rightarrow> rat) \<Rightarrow> (string \<Rightarrow> rat) \<Rightarrow> event list \<Rightarrow> hook \<Rightarrow> hook" where
  "run jsAdd rnd dur events s = fold (step jsAdd rnd dur) events s"

section \<open>The order of the steps, in the words of the specification\<close>

text \<open>
  The fixed linear order Idle, Connecting, ListeningRef, ConfirmingRef, ListeningToken,
  ConfirmingToken, ConfirmingBooking, Processing, Success: the immediate successor of a
  step, and the listening step that comes last before it.
\<close>

fun spec_successor :: "BookingStep \<Rightarrow> BookingStep option" where
  "spec_successor IDLE = Some CONNECTING"
| "spec_successor CONNECTING = Some LISTENING_DPW"
| "spec_successor LISTENING_DPW = Some CONFIRMING_DPW"
| "spec_successor CONFIRMING_DPW = Some LISTENING_TOKEN"
| "spec_successor LISTENING_TOKEN = Some CONFIRMING_TOKEN"
| "spec_successor CONFIRMING_TOKEN = Some CONFIRMING_BOOKING"
| "spec_successor CONFIRMING_BOOKING = Some PROCESSING"
| "spec_successor PROCESSING = Some SUCCESS"
| "spec_successor SUCCESS = None"
| "spec_successor ERROR = None"

fun spec_precedingListening :: "BookingStep \<Rightarrow> BookingStep option" where
  "spec_precedingListening IDLE = None"
| "spec_precedingListening CONNECTING = None"
| "spec_precedingListening LISTENING_DPW = None"
| "spec_precedingListening CONFIRMING_DPW = Some LISTENING_DPW"
| "spec_precedingListening LISTENING_TOKEN = Some LISTENING_DPW"
| "spec_precedingListening CONFIRMING_TOKEN = Some LISTENING_TOKEN"
| "spec_precedingListening CONFIRMING_BOOKING = Some LISTENING_TOKEN"
| "spec_precedingListening PROCESSING = Some LISTENING_TOKEN"
| "spec_precedingListening SUCCESS = Some LISTENING_TOKEN"
| "spec_precedingListening ERROR = None"

text \<open>A denial: a confirmation call whose flag is not set.\<close>

definition isDenial :: "FunctionCall \<Rightarrow> bool" where
  "isDenial fc \<longleftrightarrow>
     (name fc = ''confirmDpwReference'' \<or> name fc = ''confirmToken'')
       \<and> \<not> truthy (isCorrect (args fc))
     \<or> name fc = ''confirmBooking'' \<and> \<not> truthy (proceed (args fc))"

text \<open>
  The invariant as the specification words it: the next step is the immediate successor
  or, on a denial, the immediately preceding listening step.
\<close>

definition spec_linearTransition :: "BookingStep \<Rightarrow> FunctionCall \<Rightarrow> BookingStep \<Rightarrow> bool" where
  "spec_linearTransition current fc next \<longleftrightarrow>
     spec_successor current = Some next
     \<or> isDenial fc \<and> spec_precedingListening current = Some next"

text \<open>
  The function call that the transition table lists for a step, which is also the one
  that the system instruction of the session asks the model to make there; a submitted
  number is well-formed.
\<close>

definition expectedCall :: "BookingStep \<Rightarrow> FunctionCall \<Rightarrow> bool" where
  "expectedCall current fc \<longleftrightarrow>
     current = LISTENING_DPW \<and> name fc = ''submitDpwReferenceNumber''
       \<and> testDigits 7 (replaceWhitespace (orEmpty (number (args fc))))
     \<or> current = CONFIRMING_DPW \<and> name fc = ''confirmDpwReference''
     \<or> current = LISTENING_TOKEN \<and> name fc = ''submitTokenNumber''
       \<and> testDigits 6 (replaceWhitespace (orEmpty (number (args fc))))
     \<or> current = CONFIRMING_TOKEN \<and> name fc = ''confirmToken''
     \<or> current = CONFIRMING_BOOKING \<and> name fc = ''confirmBooking''"

text \<open>A call of one of the five declared functions whose handler has an effect.\<close>

definition wellFormedCall :: "FunctionCall \<Rightarrow> bool" where
  "wellFormedCall fc \<longleftrightarrow>
     name fc = ''submitDpwReferenceNumber''
       \<and> testDigits 7 (replaceWhitespace (orEmpty (number (args fc))))
     \<or> name fc = ''confirmDpwReference''
     \<or> name fc = ''submitTokenNumber''
       \<and> testDigits 6 (replaceWhitespace (orEmpty (number (args fc))))
     \<or> name fc = ''confirmToken''
     \<or> name fc = ''confirmBooking''"

text \<open>The booking record of the success screen is filled in.\<close>

definition populated :: "hook \<Rightarrow> bool" where
  "populated s \<longleftrightarrow>
     containerNumber s \<noteq> [] \<and> containerLocation s \<noteq> [] \<and> gateInTime s \<noteq> []"

text \<open>There is an error message, and it is not the empty string.\<close>

definition hasErrorMessage :: "hook \<Rightarrow> bool" where
  "hasErrorMessage s = (case error s of None \<Rightarrow> False | Some m \<Rightarrow> m \<noteq> [])"

text \<open>
  The events whose handlers set the step whatever it is: \<open>startBooking\<close>, \<open>onopen\<close>,
  \<open>reset\<close>, and a message that carries function calls (on its arrival and, when it has
  audio, on the resumption of its handler).
\<close>

fun setsStepUnguarded :: "event \<Rightarrow> bool" where
  "setsStepUnguarded (StartBooking outcome) = True"
| "setsStepUnguarded OnOpen = True"
| "setsStepUnguarded (OnMessage now message) =
     (case functionCalls message of None \<Rightarrow> False | Some fcs \<Rightarrow> fcs \<noteq> [])"
| "setsStepUnguarded (OnMessageResumed message) =
     (case functionCalls message of None \<Rightarrow> False | Some fcs \<Rightarrow> fcs \<noteq> [])"
| "setsStepUnguarded Reset = True"
| "setsStepUnguarded e = False"

section \<open>Sample inputs\<close>

text \<open>
  An addition that rounds nothing (the sums of the sample runs are sums of small dyadic
  numbers, which doubles add exactly), a source of random numbers that always draws one
  half, a decoder whose buffers last one second, a decoder whose buffers last one second
  for each character of the data, and some function calls, messages and states to run
  the hook on.
\<close>

definition exactSum :: "rat \<Rightarrow> rat \<Rightarrow> rat" where
  "exactSum x y = x + y"

definition halfRandom :: "nat \<Rightarrow> rat" where
  "halfRandom k = 1 / 2"

definition unitDuration :: "string \<Rightarrow> rat" where
  "unitDuration base64Audio = 1"

definition lengthDuration :: "string \<Rightarrow> rat" where
  "lengthDuration base64Audio = of_nat (length base64Audio)"

definition submitDpw :: "string \<Rightarrow> FunctionCall" where
  "submitDpw v =
     \<lparr>name = ''submitDpwReferenceNumber'',
      args = \<lparr>number = Some v, isCorrect = None, proceed = None\<rparr>\<rparr>"

definition submitTokenCall :: "string \<Rightarrow> FunctionCall" where
  "submitTokenCall v =
     \<lparr>name = ''submitTokenNumber'',
      args = \<lparr>number = Some v, isCorrect = None, proceed = None\<rparr>\<rparr>"

definition confirmDpw :: "bool \<Rightarrow> FunctionCall" where
  "confirmDpw b =
     \<lparr>name = ''confirmDpwReference'',
      args = \<lparr>number = None, isCorrect = Some b, proceed = None\<rparr>\<rparr>"

definition confirmTokenCall :: "bool \<Rightarrow> FunctionCall" where
  "confirmTokenCall b =
     \<lparr>name = ''confirmToken'',
      args = \<lparr>number = None, isCorrect = Some b, proceed = None\<rparr>\<rparr>"

definition confirmBookingCall :: "bool \<Rightarrow> FunctionCall" where
  "confirmBookingCall b =
     \<lparr>name = ''confirmBooking'',
      args = \<lparr>number = None, isCorrect = None, proceed = Some b\<rparr>\<rparr>"

definition toolCall :: "FunctionCall \<Rightarrow> LiveServerMessage" where
  "toolCall fc = \<lparr>inlineData = None, functionCalls = Some [fc], interrupted = False\<rparr>"

definition interruption :: LiveServerMessage where
  "interruption = \<lparr>inlineData = None, functionCalls = None, interrupted = True\<rparr>"

definition audioChunk :: "string \<Rightarrow> LiveServerMessage" where
  "audioChunk base64Audio =
     \<lparr>inlineData = Some base64Audio, functionCalls = None, interrupted = False\<rparr>"

text \<open>The hook after a start that got the microphone and a session that opened.\<close>

definition listeningHook :: hook where
  "listeningHook =
     run exactSum halfRandom unitDuration [StartBooking Resolved, OnOpen] initialHook"

text \<open>The hook after both numbers have been submitted and confirmed.\<close>

definition confirmingHook :: hook where
  "confirmingHook =
     run exactSum halfRandom unitDuration
       [StartBooking Resolved, OnOpen,
        OnMessage 0 (toolCall (submitDpw ''1234567'')),
        OnMessage 0 (toolCall (confirmDpw True)),
        OnMessage 0 (toolCall (submitTokenCall ''654321'')),
        OnMessage 0 (toolCall (confirmTokenCall True))]
       initialHook"


section \<open>Auxiliary facts\<close>

lemmas setters =
  setBookingStep_def setDpwRef_def setToken_def setContainerNumber_def
  setContainerLocation_def setGateInTime_def setError_def setVolume_def

lemmas samples =
  exactSum_def halfRandom_def unitDuration_def lengthDuration_def submitDpw_def
  submitTokenCall_def confirmDpw_def confirmTokenCall_def confirmBookingCall_def toolCall_def
  interruption_def audioChunk_def

lemmas strings =
  orEmpty_def replaceWhitespace_def testDigits_def isWhitespace_def isDigit_def truthy_def

lemma stringOfNat_digit: "n < 10 \<Longrightarrow> stringOfNat n = [digitChars ! n]"
  by (subst stringOfNat.simps) simp

lemma stringOfNat_more:
  "10 \<le> n \<Longrightarrow> stringOfNat n = stringOfNat (n div 10) @ [digitChars ! (n mod 10)]"
  by (subst stringOfNat.simps) simp

lemma stringOfNat_nonempty: "stringOfNat n \<noteq> []"
  by (subst stringOfNat.simps) simp

lemma stringOfInt_nonempty: "stringOfInt i \<noteq> []"
  by (simp add: stringOfInt_def stringOfNat_nonempty)

lemma mock_nonempty:
  "mockContainerNumber rnd k \<noteq> []"
  "generateMockLocation rnd k \<noteq> []"
  "mockGateInTime rnd k \<noteq> []"
  by (simp_all add: mockContainerNumber_def generateMockLocation_def mockGateInTime_def
      Let_def padStart_def stringOfInt_nonempty)

lemma isDigit_not_isWhitespace: "isDigit c \<Longrightarrow> \<not> isWhitespace c"
  by (auto simp: isDigit_def isWhitespace_def)

lemma filter_isDigit_all: "list_all isDigit v \<Longrightarrow> filter isDigit v = v"
  by (induction v) auto

lemma filter_isDigit_replaceWhitespace:
  "filter isDigit (replaceWhitespace v) = filter isDigit v"
  unfolding replaceWhitespace_def filter_filter
  by (rule filter_cong) (auto dest: isDigit_not_isWhitespace)

lemma testDigits_digit_count:
  "testDigits k (replaceWhitespace v) \<Longrightarrow> length (filter isDigit v) = k"
  using filter_isDigit_all [of "replaceWhitespace v"] filter_isDigit_replaceWhitespace [of v]
  by (simp add: testDigits_def)

lemma testDigits_nonempty: "0 < k \<Longrightarrow> testDigits k v \<Longrightarrow> v \<noteq> []"
  by (auto simp: testDigits_def)

lemma bookingStep_playAudio_schedule: "bookingStep (playAudio_schedule now s) = bookingStep s"
  by (simp add: playAudio_schedule_def)

lemma bookingStep_playAudio_start: "bookingStep (playAudio_start jsAdd d s) = bookingStep s"
  by (simp add: playAudio_start_def)




lemma bookingStep_stopPlayback: "bookingStep (stopPlayback s) = bookingStep s"
  by (simp add: stopPlayback_def)

lemma bookingStep_cleanup: "bookingStep (cleanup s) = bookingStep s"
  by (simp add: cleanup_def stopPlayback_def)

lemma last_statesAfter: "last (statesAfter updates s) = fold (\<lambda>update. update) updates s"
proof (induction updates arbitrary: s)
  case Nil
  show ?case by simp
next
  case (Cons update updates)
  have "statesAfter updates (update s) \<noteq> []"
    by (cases updates) simp_all
  with Cons show ?case by simp
qed

lemma processBooking_last: "last (processBooking_states rnd s) = processBooking rnd s"
  by (simp add: processBooking_states_def processBooking_def last_statesAfter)

lemma listeningHook_eq:
  "listeningHook =
     initialHook\<lparr>bookingStep := LISTENING_DPW, sessionPromiseRef := True,
       audioContextRef := True, mediaStreamRef := True, scriptProcessorRef := True,
       analyserNodeRef := True, animationFrameRef := True\<rparr>"
  by (simp add: listeningHook_def run_def startBooking_def startBooking_enter_def onopen_def
      initialHook_def setters Let_def)

lemma confirmingHook_eq:
  "confirmingHook =
     listeningHook\<lparr>bookingStep := CONFIRMING_BOOKING, dpwRef := ''1234567'', token := ''654321''\<rparr>"
  by (simp add: confirmingHook_def listeningHook_def run_def startBooking_def
      startBooking_enter_def onopen_def onmessage_def onmessage_resume_def
      handleFunctionCall_def initialHook_def setters samples strings Let_def)

text \<open>A booking with every draw at one half.\<close>

lemma processBooking_sample:
  "containerNumber (processBooking halfRandom initialHook) = ''DPWU5500000''"
  "containerLocation (processBooking halfRandom initialHook) = ''50N50N5''"
  "gateInTime (processBooking halfRandom initialHook) = ''7:30 PM''"
  "bookingStep (processBooking halfRandom initialHook) = SUCCESS"
  by (simp_all add: processBooking_def processBooking_updates_def mockContainerNumber_def
      generateMockLocation_def mockGateInTime_def initialHook_def setters halfRandom_def
      stringOfInt_def stringOfNat_digit stringOfNat_more digitChars_def padStart_def
      charAt_def letters_def Let_def)

section \<open>The claims\<close>

subsection \<open>Order of the transitions\<close>

text \<open>
  Against C1 as it is worded. After a start and the opening of the session the hook is
  in \<open>LISTENING_DPW\<close>. A \<open>confirmToken\<close> call with \<open>isCorrect = true\<close> that arrives there
  moves it to \<open>CONFIRMING_BOOKING\<close>, which is neither the successor of \<open>LISTENING_DPW\<close>
  nor, the call being no denial, a listening step before it.
\<close>

theorem linear_order_counterexample:
  "bookingStep listeningHook = LISTENING_DPW
   \<and> bookingStep (handleFunctionCall halfRandom (confirmTokenCall True) listeningHook)
       = CONFIRMING_BOOKING
   \<and> \<not> spec_linearTransition LISTENING_DPW (confirmTokenCall True)
        (bookingStep (handleFunctionCall halfRandom (confirmTokenCall True) listeningHook))"
  by (simp add: listeningHook_eq initialHook_def handleFunctionCall_def setters samples strings
      spec_linearTransition_def isDenial_def)

text \<open>
  C1, amended. When a function call arrives in the step for which the transition table
  lists it (a well-formed \<open>submitDpwReferenceNumber\<close> in \<open>LISTENING_DPW\<close>,
  \<open>confirmDpwReference\<close> in \<open>CONFIRMING_DPW\<close>, a well-formed \<open>submitTokenNumber\<close> in
  \<open>LISTENING_TOKEN\<close>, \<open>confirmToken\<close> in \<open>CONFIRMING_TOKEN\<close>, \<open>confirmBooking\<close> in
  \<open>CONFIRMING_BOOKING\<close>), the next step is the immediate successor in the linear order
  after a submission or a positive confirmation, where \<open>confirmBooking\<close> with
  \<open>proceed = true\<close> goes two steps, through \<open>PROCESSING\<close> to \<open>SUCCESS\<close>, within the one call;
  it is the immediately preceding listening step when the reference or the token is
  denied; and it is \<open>LISTENING_DPW\<close> when the booking is denied.
\<close>

theorem expected_call_follows_order:
  assumes "expectedCall (bookingStep s) fc"
  shows "(if name fc = ''confirmBooking'' then
            (if truthy (proceed (args fc))
             then Option.bind (spec_successor (bookingStep s)) spec_successor
                    = Some (bookingStep (handleFunctionCall rnd fc s))
             else bookingStep (handleFunctionCall rnd fc s) = LISTENING_DPW)
          else if isDenial fc then
            spec_precedingListening (bookingStep s)
              = Some (bookingStep (handleFunctionCall rnd fc s))
          else spec_successor (bookingStep s)
                 = Some (bookingStep (handleFunctionCall rnd fc s)))"
  using assms testDigits_nonempty [of 7 "replaceWhitespace (orEmpty (number (args fc)))"]
    testDigits_nonempty [of 6 "replaceWhitespace (orEmpty (number (args fc)))"]
  unfolding expectedCall_def
  by (elim disjE conjE)
     (simp_all add: handleFunctionCall_def isDenial_def Let_def setters processBooking_def
        processBooking_updates_def)

theorem expected_call_follows_order_witness:
  "expectedCall (bookingStep listeningHook) (submitDpw ''1234567'')
   \<and> bookingStep (handleFunctionCall halfRandom (submitDpw ''1234567'') listeningHook)
       = CONFIRMING_DPW
   \<and> expectedCall (bookingStep confirmingHook) (confirmBookingCall True)
   \<and> bookingStep (handleFunctionCall halfRandom (confirmBookingCall True) confirmingHook)
       = SUCCESS
   \<and> expectedCall (bookingStep confirmingHook) (confirmBookingCall False)
   \<and> bookingStep (handleFunctionCall halfRandom (confirmBookingCall False) confirmingHook)
       = LISTENING_DPW"
  using expected_call_follows_order
      [where s = listeningHook and fc = "submitDpw ''1234567''" and rnd = halfRandom]
    expected_call_follows_order
      [where s = confirmingHook and fc = "confirmBookingCall True" and rnd = halfRandom]
    expected_call_follows_order
      [where s = confirmingHook and fc = "confirmBookingCall False" and rnd = halfRandom]
  by (simp add: expectedCall_def isDenial_def confirmingHook_eq listeningHook_eq initialHook_def
      samples strings)

subsection \<open>Malformed submissions\<close>

text \<open>
  C2. In every state, a \<open>submitDpwReferenceNumber\<close> call whose number does not hold
  exactly 7 digits and a \<open>submitTokenNumber\<close> call whose number does not hold exactly 6
  digits (a missing number holds none) are ignored: the handler returns the hook as it
  was, with the step and every stored field, and so does \<open>onmessage\<close> for a message that
  carries just this call.
\<close>

theorem malformed_submit_ignored:
  assumes "name fc = ''submitDpwReferenceNumber''
             \<and> length (filter isDigit (orEmpty (number (args fc)))) \<noteq> 7
           \<or> name fc = ''submitTokenNumber''
             \<and> length (filter isDigit (orEmpty (number (args fc)))) \<noteq> 6"
  shows "handleFunctionCall rnd fc s = s
         \<and> onmessage rnd now
             \<lparr>inlineData = None, functionCalls = Some [fc], interrupted = False\<rparr> s = s"
proof -
  have "handleFunctionCall rnd fc s = s"
    using assms testDigits_digit_count [of 7 "orEmpty (number (args fc))"]
      testDigits_digit_count [of 6 "orEmpty (number (args fc))"]
    by (auto simp: handleFunctionCall_def Let_def)
  then show ?thesis
    by (simp add: onmessage_def onmessage_resume_def)
qed

theorem malformed_submit_ignored_witness:
  "length (filter isDigit (orEmpty (number (args (submitDpw ''12 3456''))))) \<noteq> 7
   \<and> handleFunctionCall halfRandom (submitDpw ''12 3456'') listeningHook = listeningHook
   \<and> length (filter isDigit (orEmpty (number (args (submitTokenCall ''1234567''))))) \<noteq> 6
   \<and> handleFunctionCall halfRandom (submitTokenCall ''1234567'') confirmingHook = confirmingHook"
  using malformed_submit_ignored
      [where fc = "submitDpw ''12 3456''" and rnd = halfRandom and s = listeningHook]
    malformed_submit_ignored
      [where fc = "submitTokenCall ''1234567''" and rnd = halfRandom and s = confirmingHook]
  by (simp add: samples strings)

subsection \<open>Denials\<close>

text \<open>
  C3. A \<open>confirmDpwReference\<close> call whose \<open>isCorrect\<close> is false (or missing) moves the hook
  to \<open>LISTENING_DPW\<close> and clears the stored reference number; a \<open>confirmToken\<close> call whose
  \<open>isCorrect\<close> is false (or missing) moves it to \<open>LISTENING_TOKEN\<close> and clears the stored
  token. Nothing else changes.
\<close>

theorem denial_returns_to_listening:
  assumes "\<not> truthy (isCorrect (args fc))"
  shows "(name fc = ''confirmDpwReference'' \<longrightarrow>
            handleFunctionCall rnd fc s = s\<lparr>bookingStep := LISTENING_DPW, dpwRef := []\<rparr>)
         \<and> (name fc = ''confirmToken'' \<longrightarrow>
            handleFunctionCall rnd fc s = s\<lparr>bookingStep := LISTENING_TOKEN, token := []\<rparr>)"
  using assms by (simp add: handleFunctionCall_def setters)

theorem denial_returns_to_listening_witness:
  "\<not> truthy (isCorrect (args (confirmDpw False)))
   \<and> bookingStep (handleFunctionCall halfRandom (confirmDpw False) confirmingHook) = LISTENING_DPW
   \<and> dpwRef confirmingHook = ''1234567''
   \<and> dpwRef (handleFunctionCall halfRandom (confirmDpw False) confirmingHook) = []
   \<and> \<not> truthy (isCorrect (args (confirmTokenCall False)))
   \<and> bookingStep (handleFunctionCall halfRandom (confirmTokenCall False) confirmingHook)
       = LISTENING_TOKEN
   \<and> token confirmingHook = ''654321''
   \<and> token (handleFunctionCall halfRandom (confirmTokenCall False) confirmingHook) = []"
  using denial_returns_to_listening
      [where fc = "confirmDpw False" and rnd = halfRandom and s = confirmingHook]
    denial_returns_to_listening
      [where fc = "confirmTokenCall False" and rnd = halfRandom and s = confirmingHook]
  by (simp add: samples strings confirmingHook_eq)

text \<open>
  C4. In \<open>CONFIRMING_BOOKING\<close>, a \<open>confirmBooking\<close> call whose \<open>proceed\<close> is false moves the
  hook to \<open>LISTENING_DPW\<close> and clears both the stored reference number and the stored
  token.
\<close>

theorem booking_denial_clears_both:
  assumes "bookingStep s = CONFIRMING_BOOKING"
    and "name fc = ''confirmBooking''"
    and "\<not> truthy (proceed (args fc))"
  shows "handleFunctionCall rnd fc s
           = s\<lparr>bookingStep := LISTENING_DPW, dpwRef := [], token := []\<rparr>"
  using assms by (simp add: handleFunctionCall_def setters)

theorem booking_denial_clears_both_witness:
  "bookingStep confirmingHook = CONFIRMING_BOOKING
   \<and> dpwRef confirmingHook = ''1234567'' \<and> token confirmingHook = ''654321''
   \<and> bookingStep (handleFunctionCall halfRandom (confirmBookingCall False) confirmingHook)
       = LISTENING_DPW
   \<and> dpwRef (handleFunctionCall halfRandom (confirmBookingCall False) confirmingHook) = []
   \<and> token (handleFunctionCall halfRandom (confirmBookingCall False) confirmingHook) = []"
  using booking_denial_clears_both
      [where s = confirmingHook and fc = "confirmBookingCall False" and rnd = halfRandom]
  by (simp add: samples strings confirmingHook_eq)

subsection \<open>The final confirmation\<close>

text \<open>
  C5. In \<open>CONFIRMING_BOOKING\<close>, a \<open>confirmBooking\<close> call whose \<open>proceed\<close> is true ends in
  \<open>SUCCESS\<close> with the container number, the location and the gate-in time all non-empty,
  whatever the random draws are. The states that the hook goes through from the entry
  into \<open>processBooking\<close> (where the step is \<open>PROCESSING\<close>) end with the state that the
  handler returns, and every one of them whose step is \<open>SUCCESS\<close> has the three fields
  non-empty already: the record is filled in before the step is set.
\<close>

theorem confirmed_booking_populated:
  assumes "bookingStep s = CONFIRMING_BOOKING"
    and "name fc = ''confirmBooking''"
    and "truthy (proceed (args fc))"
  shows "bookingStep (handleFunctionCall rnd fc s) = SUCCESS
         \<and> populated (handleFunctionCall rnd fc s)
         \<and> bookingStep (hd (processBooking_states rnd (setBookingStep PROCESSING s))) = PROCESSING
         \<and> last (processBooking_states rnd (setBookingStep PROCESSING s))
             = handleFunctionCall rnd fc s
         \<and> (\<forall>t \<in> set (processBooking_states rnd (setBookingStep PROCESSING s)).
               bookingStep t = SUCCESS \<longrightarrow> populated t)"
proof -
  have handler: "handleFunctionCall rnd fc s = processBooking rnd (setBookingStep PROCESSING s)"
    using assms by (simp add: handleFunctionCall_def)
  have final: "bookingStep (processBooking rnd (setBookingStep PROCESSING s)) = SUCCESS
               \<and> populated (processBooking rnd (setBookingStep PROCESSING s))"
    by (simp add: processBooking_def processBooking_updates_def setters populated_def
        mock_nonempty)
  have first: "bookingStep (hd (processBooking_states rnd (setBookingStep PROCESSING s)))
                 = PROCESSING"
    by (simp add: processBooking_states_def processBooking_updates_def setters)
  have before: "\<forall>t \<in> set (processBooking_states rnd (setBookingStep PROCESSING s)).
                  bookingStep t = SUCCESS \<longrightarrow> populated t"
    by (simp add: processBooking_states_def processBooking_updates_def setters populated_def
        mock_nonempty)
  from handler final first before processBooking_last [of rnd "setBookingStep PROCESSING s"]
  show ?thesis by simp
qed

theorem confirmed_booking_populated_witness:
  "bookingStep confirmingHook = CONFIRMING_BOOKING
   \<and> bookingStep (handleFunctionCall halfRandom (confirmBookingCall True) confirmingHook) = SUCCESS
   \<and> containerNumber (handleFunctionCall halfRandom (confirmBookingCall True) confirmingHook) \<noteq> []
   \<and> containerLocation (handleFunctionCall halfRandom (confirmBookingCall True) confirmingHook) \<noteq> []
   \<and> gateInTime (handleFunctionCall halfRandom (confirmBookingCall True) confirmingHook) \<noteq> []"
  using confirmed_booking_populated
      [where s = confirmingHook and fc = "confirmBookingCall True" and rnd = halfRandom]
  by (simp add: samples strings confirmingHook_eq populated_def)

subsection \<open>The playback cursor\<close>




subsection \<open>Failures\<close>

text \<open>
  Against C7 as it is worded. A start that is refused the microphone leaves the hook in
  \<open>ERROR\<close>, and a further call of \<open>startBooking\<close> moves it on to \<open>CONNECTING\<close>; a session
  error leaves the hook in \<open>ERROR\<close>, and a message with a \<open>confirmToken\<close> call that is
  handled afterwards moves it on to \<open>CONFIRMING_BOOKING\<close>. Neither event is a reset.
\<close>

theorem error_not_terminal_counterexample:
  "bookingStep (run exactSum halfRandom unitDuration [StartBooking Rejected] initialHook) = ERROR
   \<and> bookingStep
        (run exactSum halfRandom unitDuration [StartBooking Rejected, StartBooking Resolved] initialHook)
       = CONNECTING
   \<and> bookingStep (run exactSum halfRandom unitDuration [StartBooking Resolved, OnOpen, OnError] initialHook)
       = ERROR
   \<and> bookingStep
        (run exactSum halfRandom unitDuration
          [StartBooking Resolved, OnOpen, OnError, OnMessage 0 (toolCall (confirmTokenCall True))]
          initialHook)
       = CONFIRMING_BOOKING"
  by (simp add: run_def startBooking_def startBooking_enter_def startBooking_catch_def onopen_def
      onerror_def onmessage_def onmessage_resume_def cleanup_def stopPlayback_def
      initialHook_def setters handleFunctionCall_def samples strings Let_def)

text \<open>
  C7, amended. A connection failure (\<open>onerror\<close>) and a failure to get the microphone (the
  \<open>catch\<close> of a \<open>startBooking\<close> that has got past its session check) put the hook in
  \<open>ERROR\<close> with an error message that is not empty. In \<open>ERROR\<close>, \<open>reset\<close> leads to \<open>IDLE\<close>,
  and every event other than \<open>reset\<close>, \<open>startBooking\<close>, \<open>onopen\<close> and a message that
  carries function calls leaves the step at \<open>ERROR\<close>; the handlers of those events set the
  step without looking at it.
\<close>

theorem failures_surface_as_error:
  "bookingStep (onerror s) = ERROR \<and> hasErrorMessage (onerror s)
   \<and> (\<not> sessionPromiseRef s \<longrightarrow>
        bookingStep (startBooking Rejected s) = ERROR
        \<and> hasErrorMessage (startBooking Rejected s))
   \<and> (bookingStep s = ERROR \<and> \<not> setsStepUnguarded e \<longrightarrow>
        bookingStep (step jsAdd rnd dur e s) = ERROR)
   \<and> bookingStep (step jsAdd rnd dur Reset s) = IDLE"
proof -
  have keep: "bookingStep (step jsAdd rnd dur e s) = ERROR"
    if "bookingStep s = ERROR" "\<not> setsStepUnguarded e"
    using that
    by (cases e)
       (auto simp: onmessage_def onmessage_resume_def onerror_def onclose_def
          submitManualInput_def speakText_def onended_def updateVolume_def
          bookingStep_playAudio_schedule bookingStep_playAudio_start bookingStep_stopPlayback
          bookingStep_cleanup setters Let_def split: option.splits)
  have fail: "bookingStep (onerror s) = ERROR \<and> hasErrorMessage (onerror s)"
    by (simp add: onerror_def cleanup_def stopPlayback_def hasErrorMessage_def setters)
  have mic: "bookingStep (startBooking Rejected s) = ERROR
             \<and> hasErrorMessage (startBooking Rejected s)"
    if "\<not> sessionPromiseRef s"
    using that
    by (simp add: startBooking_def startBooking_catch_def startBooking_enter_def cleanup_def
        stopPlayback_def hasErrorMessage_def setters)
  have restart: "bookingStep (step jsAdd rnd dur Reset s) = IDLE"
    by (simp add: reset_def setters)
  from keep fail mic restart show ?thesis by blast
qed

theorem failures_surface_as_error_witness:
  "\<not> sessionPromiseRef initialHook
   \<and> bookingStep (startBooking Rejected initialHook) = ERROR
   \<and> error (startBooking Rejected initialHook)
       = Some ''Could not access the microphone. Please grant permission and try again.''
   \<and> \<not> setsStepUnguarded (SubmitManualInput ''1234567'')
   \<and> bookingStep
        (step exactSum halfRandom unitDuration (SubmitManualInput ''1234567'')
          (startBooking Rejected initialHook)) = ERROR
   \<and> bookingStep (step exactSum halfRandom unitDuration Reset (startBooking Rejected initialHook)) = IDLE"
  using failures_surface_as_error
      [where s = initialHook and e = "SubmitManualInput ''1234567''" and jsAdd = exactSum
         and rnd = halfRandom and dur = unitDuration]
    failures_surface_as_error
      [where s = "startBooking Rejected initialHook" and e = "SubmitManualInput ''1234567''"
         and jsAdd = exactSum and rnd = halfRandom and dur = unitDuration]
  by (simp add: initialHook_def startBooking_def startBooking_catch_def startBooking_enter_def
      cleanup_def stopPlayback_def setters)

subsection \<open>Reset\<close>

text \<open>
  C8. From any state, \<open>reset\<close> leads to \<open>IDLE\<close> with the reference number, the token, the
  container number, the location and the gate-in time all empty and no error message.
\<close>

theorem reset_clears_all:
  "bookingStep (reset s) = IDLE \<and> dpwRef (reset s) = [] \<and> token (reset s) = []
   \<and> containerNumber (reset s) = [] \<and> containerLocation (reset s) = []
   \<and> gateInTime (reset s) = [] \<and> error (reset s) = None"
  by (simp add: reset_def setters)

subsection \<open>Handlers and the current step\<close>

text \<open>
  C9. The handlers of the function calls do not consult the current step: the result of
  a well-formed call is the same whatever the step was before. A well-formed
  \<open>submitDpwReferenceNumber\<close> stores the number (without its whitespace) and leads to
  \<open>CONFIRMING_DPW\<close>, a positive \<open>confirmDpwReference\<close> leads to \<open>LISTENING_TOKEN\<close>, a
  well-formed \<open>submitTokenNumber\<close> stores the token and leads to \<open>CONFIRMING_TOKEN\<close>, and a
  positive \<open>confirmToken\<close> leads to \<open>CONFIRMING_BOOKING\<close>, each of them from every state.
\<close>

theorem handlers_ignore_current_step:
  "(wellFormedCall fc \<longrightarrow>
      handleFunctionCall rnd fc (s\<lparr>bookingStep := current\<rparr>) = handleFunctionCall rnd fc s)
   \<and> (name fc = ''submitDpwReferenceNumber''
        \<and> testDigits 7 (replaceWhitespace (orEmpty (number (args fc)))) \<longrightarrow>
      handleFunctionCall rnd fc s
        = s\<lparr>bookingStep := CONFIRMING_DPW,
            dpwRef := replaceWhitespace (orEmpty (number (args fc)))\<rparr>)
   \<and> (name fc = ''confirmDpwReference'' \<and> truthy (isCorrect (args fc)) \<longrightarrow>
      handleFunctionCall rnd fc s = s\<lparr>bookingStep := LISTENING_TOKEN\<rparr>)
   \<and> (name fc = ''submitTokenNumber''
        \<and> testDigits 6 (replaceWhitespace (orEmpty (number (args fc)))) \<longrightarrow>
      handleFunctionCall rnd fc s
        = s\<lparr>bookingStep := CONFIRMING_TOKEN,
            token := replaceWhitespace (orEmpty (number (args fc)))\<rparr>)
   \<and> (name fc = ''confirmToken'' \<and> truthy (isCorrect (args fc)) \<longrightarrow>
      handleFunctionCall rnd fc s = s\<lparr>bookingStep := CONFIRMING_BOOKING\<rparr>)"
proof -
  have ne7: "testDigits 7 v \<Longrightarrow> v \<noteq> []" and ne6: "testDigits 6 v \<Longrightarrow> v \<noteq> []" for v
    by (auto simp: testDigits_def)
  have indep: "handleFunctionCall rnd fc (s\<lparr>bookingStep := current\<rparr>) = handleFunctionCall rnd fc s"
    if "wellFormedCall fc"
    using that ne7 ne6 unfolding wellFormedCall_def
    by (elim disjE conjE)
       (simp_all add: handleFunctionCall_def Let_def setters processBooking_def
          processBooking_updates_def)
  have results: "(name fc = ''submitDpwReferenceNumber''
        \<and> testDigits 7 (replaceWhitespace (orEmpty (number (args fc)))) \<longrightarrow>
      handleFunctionCall rnd fc s
        = s\<lparr>bookingStep := CONFIRMING_DPW,
            dpwRef := replaceWhitespace (orEmpty (number (args fc)))\<rparr>)
   \<and> (name fc = ''confirmDpwReference'' \<and> truthy (isCorrect (args fc)) \<longrightarrow>
      handleFunctionCall rnd fc s = s\<lparr>bookingStep := LISTENING_TOKEN\<rparr>)
   \<and> (name fc = ''submitTokenNumber''
        \<and> testDigits 6 (replaceWhitespace (orEmpty (number (args fc)))) \<longrightarrow>
      handleFunctionCall rnd fc s
        = s\<lparr>bookingStep := CONFIRMING_TOKEN,
            token := replaceWhitespace (orEmpty (number (args fc)))\<rparr>)
   \<and> (name fc = ''confirmToken'' \<and> truthy (isCorrect (args fc)) \<longrightarrow>
      handleFunctionCall rnd fc s = s\<lparr>bookingStep := CONFIRMING_BOOKING\<rparr>)"
    using ne7 ne6 by (simp add: handleFunctionCall_def Let_def setters)
  from indep results show ?thesis by blast
qed

theorem handlers_ignore_current_step_witness:
  "bookingStep listeningHook = LISTENING_DPW
   \<and> bookingStep (handleFunctionCall halfRandom (confirmTokenCall True) listeningHook)
       = CONFIRMING_BOOKING
   \<and> bookingStep (reset confirmingHook) = IDLE
   \<and> handleFunctionCall halfRandom (submitDpw ''123 4567'') (reset confirmingHook)
       = (reset confirmingHook)\<lparr>bookingStep := CONFIRMING_DPW, dpwRef := ''1234567''\<rparr>
   \<and> wellFormedCall (confirmBookingCall True)
   \<and> handleFunctionCall halfRandom (confirmBookingCall True) (listeningHook\<lparr>bookingStep := ERROR\<rparr>)
       = handleFunctionCall halfRandom (confirmBookingCall True) listeningHook"
  using handlers_ignore_current_step
      [where fc = "confirmTokenCall True" and rnd = halfRandom and s = listeningHook
         and current = ERROR]
    handlers_ignore_current_step
      [where fc = "submitDpw ''123 4567''" and rnd = halfRandom and s = "reset confirmingHook"
         and current = ERROR]
    handlers_ignore_current_step
      [where fc = "confirmBookingCall True" and rnd = halfRandom and s = listeningHook
         and current = ERROR]
  by (simp add: wellFormedCall_def samples strings listeningHook_eq initialHook_def reset_def
      setters)

subsection \<open>Manual input\<close>

text \<open>
  C10. \<open>submitManualInput\<close> does not validate its argument. For every string: in
  \<open>LISTENING_DPW\<close> the string becomes the reference number and the step becomes
  \<open>CONFIRMING_DPW\<close>; in \<open>LISTENING_TOKEN\<close> it becomes the token and the step becomes
  \<open>CONFIRMING_TOKEN\<close>; in every other step neither the step nor a stored field changes.
  In all three cases the playback is stopped first, which touches the audio queue and
  its cursor only. The check of the digits is in the form of the application, whose
  \<open>handleManualSubmit\<close> leaves the hook alone when the input is not valid.
\<close>

theorem manual_input_unvalidated:
  "(bookingStep s = LISTENING_DPW \<longrightarrow>
      submitManualInput num s
        = (stopPlayback s)\<lparr>bookingStep := CONFIRMING_DPW, dpwRef := num\<rparr>)
   \<and> (bookingStep s = LISTENING_TOKEN \<longrightarrow>
      submitManualInput num s
        = (stopPlayback s)\<lparr>bookingStep := CONFIRMING_TOKEN, token := num\<rparr>)
   \<and> (bookingStep s \<noteq> LISTENING_DPW \<and> bookingStep s \<noteq> LISTENING_TOKEN \<longrightarrow>
      submitManualInput num s = stopPlayback s)
   \<and> stopPlayback s = s\<lparr>audioSourcesRef := [], nextStartTimeRef := 0\<rparr>
   \<and> (\<not> isInputValid num s \<longrightarrow> handleManualSubmit num s = s)"
  by (simp add: submitManualInput_def handleManualSubmit_def setters stopPlayback_def)

theorem manual_input_unvalidated_witness:
  "bookingStep listeningHook = LISTENING_DPW
   \<and> dpwRef (submitManualInput ''12ab'' listeningHook) = ''12ab''
   \<and> bookingStep (submitManualInput ''12ab'' listeningHook) = CONFIRMING_DPW
   \<and> bookingStep (listeningHook\<lparr>bookingStep := LISTENING_TOKEN\<rparr>) = LISTENING_TOKEN
   \<and> token (submitManualInput [] (listeningHook\<lparr>bookingStep := LISTENING_TOKEN\<rparr>)) = []
   \<and> bookingStep (submitManualInput [] (listeningHook\<lparr>bookingStep := LISTENING_TOKEN\<rparr>))
       = CONFIRMING_TOKEN
   \<and> bookingStep confirmingHook \<noteq> LISTENING_DPW \<and> bookingStep confirmingHook \<noteq> LISTENING_TOKEN
   \<and> submitManualInput ''7654321'' confirmingHook = confirmingHook
   \<and> \<not> isInputValid ''12ab'' listeningHook
   \<and> handleManualSubmit ''12ab'' listeningHook = listeningHook"
  using manual_input_unvalidated [where s = listeningHook and num = "''12ab''"]
    manual_input_unvalidated [where s = "listeningHook\<lparr>bookingStep := LISTENING_TOKEN\<rparr>" and num = "[]"]
    manual_input_unvalidated [where s = confirmingHook and num = "''7654321''"]
  by (simp add: confirmingHook_eq listeningHook_eq initialHook_def isInputValid_def
      requiredLength_def stopPlayback_def)

end
